theory Spec2Isabelle
  imports Main "HOL-Library.Word"
begin

section \<open>Values (package value) and their rendering\<close>

text \<open>
  \<open>value.Primary\<close> is a Go interface. The seven implementations the encoder
  switches on are constructors of their own; \<open>OtherPrimary\<close> stands for every other
  value of the interface type (another implementation, or the nil interface), which the
  type switch of \<open>ConvertFieldContents\<close> matches with no case.

  The package \<open>value\<close> and the library \<open>ternary\<close> are not among the sources.
  A float is kept as its 64 bits and a timestamp as nanoseconds with a zone offset; how
  they print is a parameter (\<open>Formatters\<close>).
\<close>

datatype TernaryValue = TRUE | FALSE | UNKNOWN

record Time =
  unix_nano :: int
  zone_offset :: int

datatype Primary =
    String string
  | Integer "64 word"
  | Float "64 word"
  | Boolean bool
  | Ternary TernaryValue
  | Datetime Time
  | Null
  | OtherPrimary nat

text \<open>The style classes of package \<open>cmd\<close> and the alignments of package \<open>text\<close>.\<close>

datatype Effect =
    NoEffect | StringEffect | NumberEffect | BooleanEffect
  | TernaryEffect | DatetimeEffect | NullEffect

datatype FieldAlignment = NotAligned | Centering | RightAligned | LeftAligned

record Formatters =
  Float_String :: "64 word \<Rightarrow> string"
  Datetime_Format :: "Time \<Rightarrow> string"

subsection \<open>Decimal text\<close>

text \<open>
  Modelled from the spec: the \<open>String\<close> methods of \<open>value.Integer\<close> and
  \<open>value.Boolean\<close> (package \<open>value\<close> is not among the sources). An integer prints
  as its decimal text, with a minus sign when negative, a boolean as true or false, which
  is also what \<open>strconv.FormatBool\<close> prints.
\<close>

definition digit :: "nat \<Rightarrow> char" where
  "digit d = char_of (48 + d)"

function FormatUint :: "nat \<Rightarrow> string" where
  "FormatUint n = (if n < 10 then [digit n] else FormatUint (n div 10) @ [digit (n mod 10)])"
  by pat_completeness auto
termination
  by (relation "measure id") auto

declare FormatUint.simps [simp del]

definition FormatInt :: "int \<Rightarrow> string" where
  "FormatInt i = (if i < 0 then CHR ''-'' # FormatUint (nat (- i)) else FormatUint (nat i))"

definition FormatBool :: "bool \<Rightarrow> string" where
  "FormatBool b = (if b then ''true'' else ''false'')"

text \<open>
  Modelled from the spec: the methods of \<open>ternary.Value\<close> (library \<open>ternary\<close>) are not
  among the sources. \<open>String\<close> is the three-valued label itself; \<open>ParseBool\<close> is the
  collapse to a boolean, which the encoder only uses when the value is not UNKNOWN.
\<close>

fun Ternary_String :: "TernaryValue \<Rightarrow> string" where
  "Ternary_String TRUE = ''TRUE''"
| "Ternary_String FALSE = ''FALSE''"
| "Ternary_String UNKNOWN = ''UNKNOWN''"

fun ParseBool :: "TernaryValue \<Rightarrow> bool" where
  "ParseBool TRUE = True"
| "ParseBool FALSE = False"
| "ParseBool UNKNOWN = False"

subsection \<open>ConvertFieldContents (encode.go, lines 321-365)\<close>

text \<open>
  The three results start as \<open>('''', NoEffect, NotAligned)\<close> and each case of the type
  switch overwrites some of them. The switch has no default case.
\<close>

fun ConvertFieldContents ::
  "Formatters \<Rightarrow> Primary \<Rightarrow> bool \<Rightarrow> string \<times> Effect \<times> FieldAlignment" where
  "ConvertFieldContents F (String s) forTextTable = (s, StringEffect, NotAligned)"
| "ConvertFieldContents F (Integer i) forTextTable =
     (FormatInt (sint i), NumberEffect, RightAligned)"
| "ConvertFieldContents F (Float f) forTextTable =
     (Float_String F f, NumberEffect, RightAligned)"
| "ConvertFieldContents F (Boolean b) forTextTable =
     (FormatBool b, BooleanEffect, Centering)"
| "ConvertFieldContents F (Ternary t) forTextTable =
     (if forTextTable then (Ternary_String t, TernaryEffect, Centering)
      else if t \<noteq> UNKNOWN then (FormatBool (ParseBool t), BooleanEffect, Centering)
      else ('''', NoEffect, NotAligned))"
| "ConvertFieldContents F (Datetime d) forTextTable =
     (Datetime_Format F d, DatetimeEffect, NotAligned)"
| "ConvertFieldContents F Null forTextTable =
     (if forTextTable then (''NULL'', NullEffect, Centering)
      else ('''', NoEffect, NotAligned))"
| "ConvertFieldContents F (OtherPrimary k) forTextTable = ('''', NoEffect, NotAligned)"

section \<open>Header (package query)\<close>

text \<open>
  Of the header only its tests (header_test.go) are among the sources; the type and its
  methods are modelled here from the specification, and each model is checked against the
  expectations of the tests below.
\<close>

record HeaderField =
  View :: string
  Column :: string
  Aliases :: "string list"
  Number :: int
  IsFromTable :: bool
  IsJoinColumn :: bool

type_synonym Header = "HeaderField list"

text \<open>The reference expressions of package \<open>parser\<close> that a header resolves. An
  identifier with an empty literal is an absent qualifier. An aggregate function is kept as
  its text (\<open>count(*)\<close>), an integer literal as its value, whose text is its decimal form.\<close>

datatype QueryExpression =
    FieldReference string string
  | ColumnNumber string int
  | IntegerLiteral int
  | AggregateFunction string

datatype HeaderError =
    FieldAmbiguousError string
  | FieldNotExistError string
  | FieldLengthNotMatchError
  | DuplicateFieldNameError string

fun ErrorMessage :: "HeaderError \<Rightarrow> string" where
  "ErrorMessage (FieldAmbiguousError x) = ''[L:- C:-] field '' @ x @ '' is ambiguous''"
| "ErrorMessage (FieldNotExistError x) = ''[L:- C:-] field '' @ x @ '' does not exist''"
| "ErrorMessage FieldLengthNotMatchError = ''[L:- C:-] field length does not match''"
| "ErrorMessage (DuplicateFieldNameError x) =
     ''[L:- C:-] field name '' @ x @ '' is a duplicate''"

text \<open>The indices, from \<open>k\<close> on, of the fields that satisfy \<open>P\<close>, in header order:
  the scan \<open>for i, f := range h\<close>.\<close>

fun indices_from :: "nat \<Rightarrow> ('a \<Rightarrow> bool) \<Rightarrow> 'a list \<Rightarrow> nat list" where
  "indices_from k P [] = []"
| "indices_from k P (x # xs) =
     (if P x then k # indices_from (Suc k) P xs else indices_from (Suc k) P xs)"

definition indices :: "('a \<Rightarrow> bool) \<Rightarrow> 'a list \<Rightarrow> nat list" where
  "indices P xs = indices_from 0 P xs"

text \<open>
  Modelled from the spec: \<open>Header.TableColumnNames\<close> (header.go is not among the
  sources). The names of the fields with \<open>isFromTable == true\<close>, order preserved;
  \<open>TestHeader_TableColumnNames\<close> expects c1, c3 of the fields c1, c2, c3 whose second is
  not from a table.
\<close>

definition TableColumnNames :: "Header \<Rightarrow> string list" where
  "TableColumnNames h = map Column (filter IsFromTable h)"

text \<open>A field matches a name by its column or by one of its aliases.\<close>

definition field_matches :: "string \<Rightarrow> HeaderField \<Rightarrow> bool" where
  "field_matches name f = (Column f = name \<or> name \<in> set (Aliases f))"

definition join_matches :: "string \<Rightarrow> Header \<Rightarrow> nat list" where
  "join_matches name h = indices (\<lambda>f. field_matches name f \<and> IsJoinColumn f) h"

definition plain_matches :: "string \<Rightarrow> Header \<Rightarrow> nat list" where
  "plain_matches name h = indices (\<lambda>f. field_matches name f \<and> \<not> IsJoinColumn f) h"

text \<open>
  Modelled from the spec: \<open>Header.Contains\<close> (header.go is not among the sources).
  With a qualifier, only the fields of that view that match the name count, and exactly
  one is required, else the field does not exist. Without one every field is scanned:
  no match is "does not exist"; two or more matching fields that are not join columns are
  ambiguous (the ambiguity law); matching join columns collapse to the first of them (the
  join-duplicate law), which is also the answer next to a single matching field that is
  not a join column: \<open>TestHeader_Contains\<close> resolves c4 to index 5, the join column,
  past the field t3.c4 at index 4.
\<close>

definition Contains :: "Header \<Rightarrow> string \<Rightarrow> string \<Rightarrow> HeaderError + nat" where
  "Contains h view column =
     (if view \<noteq> '''' then
        (case indices (\<lambda>f. View f = view \<and> field_matches column f) h of
           [i] \<Rightarrow> Inr i
         | _ \<Rightarrow> Inl (FieldNotExistError (view @ ''.'' @ column)))
      else if 2 \<le> length (plain_matches column h) then Inl (FieldAmbiguousError column)
      else
        (case join_matches column h of
           j # _ \<Rightarrow> Inr j
         | [] \<Rightarrow>
            (case plain_matches column h of
               i # _ \<Rightarrow> Inr i
             | [] \<Rightarrow> Inl (FieldNotExistError column))))"

text \<open>
  Modelled from the spec: \<open>Header.ContainsNumber\<close> (header.go is not among the
  sources). Numbers are 1-based, and 0 is "not addressable by number"; the qualifier
  restricts the fields when it is given; only exactly one field succeeds.
\<close>

definition ContainsNumber :: "Header \<Rightarrow> string \<Rightarrow> int \<Rightarrow> HeaderError + nat" where
  "ContainsNumber h view n =
     (if n < 1 then Inl (FieldNotExistError (view @ ''.'' @ FormatInt n))
      else
        (case indices (\<lambda>f. (view = '''' \<or> View f = view) \<and> Number f = n) h of
           [i] \<Rightarrow> Inr i
         | _ \<Rightarrow> Inl (FieldNotExistError (view @ ''.'' @ FormatInt n))))"

text \<open>The result of a scan by text: none, one, or more than one field.\<close>

definition unique_index :: "string \<Rightarrow> nat list \<Rightarrow> HeaderError + nat" where
  "unique_index txt found =
     (case found of
        [] \<Rightarrow> Inl (FieldNotExistError txt)
      | [i] \<Rightarrow> Inr i
      | _ \<Rightarrow> Inl (FieldAmbiguousError txt))"

text \<open>
  Modelled from the spec: \<open>Header.ContainsObject\<close> (header.go is not among the
  sources). A field reference goes to \<open>Contains\<close>, a column number to
  \<open>ContainsNumber\<close>. A bare integer literal is looked up by its decimal text among the
  columns of all fields, the numbers of the fields playing no part. An aggregate function
  is looked up by its text; the spec says no more, and \<open>TestHeader_ContainsObject\<close>
  expects index 5 for count(*) where the field at index 2, from a table, has that column
  too, so this lookup passes over the fields from tables.
\<close>

fun ContainsObject :: "Header \<Rightarrow> QueryExpression \<Rightarrow> HeaderError + nat" where
  "ContainsObject h (FieldReference view column) = Contains h view column"
| "ContainsObject h (ColumnNumber view n) = ContainsNumber h view n"
| "ContainsObject h (IntegerLiteral n) =
     unique_index (FormatInt n) (indices (\<lambda>f. Column f = FormatInt n) h)"
| "ContainsObject h (AggregateFunction txt) =
     unique_index txt (indices (\<lambda>f. \<not> IsFromTable f \<and> Column f = txt) h)"

subsection \<open>Update\<close>

text \<open>
  A \<open>Header\<close> is a Go slice: the value a caller holds refers to an array of fields,
  which the methods reach through the same reference. The store maps the address of such an
  array to its fields; a header nobody allocated is the nil slice, of length 0.
\<close>

type_synonym addr = nat
type_synonym store = "addr \<rightharpoonup> Header"

definition fields_at :: "store \<Rightarrow> addr \<Rightarrow> Header" where
  "fields_at s a = (case s a of None \<Rightarrow> [] | Some h \<Rightarrow> h)"

text \<open>The first replacement name that an earlier one already used.\<close>

fun first_duplicate :: "string list \<Rightarrow> string list \<Rightarrow> string option" where
  "first_duplicate seen [] = None"
| "first_duplicate seen (x # xs) =
     (if x \<in> set seen then Some x else first_duplicate (seen @ [x]) xs)"

definition rebind :: "string \<Rightarrow> HeaderField \<Rightarrow> HeaderField" where
  "rebind reference f = f\<lparr>View := reference, Aliases := [], Number := 0\<rparr>"

definition rename :: "string \<Rightarrow> HeaderField \<Rightarrow> string \<Rightarrow> HeaderField" where
  "rename reference f c = (rebind reference f)\<lparr>Column := c\<rparr>"

text \<open>
  Modelled from the spec: \<open>Header.Update\<close> (header.go is not among the sources).
  \<open>Update_fields\<close> is what the fields become, or the error: replacements, when given
  (\<open>None\<close> is Go's nil), must be as many as the fields, else the length error; they are
  plain identifiers (their literals, here), and a repeated one is the duplicate error;
  every view becomes the reference, every column its replacement, aliases and numbers are
  cleared. \<open>Update\<close> returns the error only and writes the new fields into the array
  of the header it is called on: \<open>TestHeader_Update\<close> calls
  \<open>err := v.Header.Update(v.Reference, v.Fields)\<close> and then compares \<open>v.Header\<close>
  itself with the expected fields.
\<close>

definition Update_fields ::
  "Header \<Rightarrow> string \<Rightarrow> string list option \<Rightarrow> HeaderError + Header" where
  "Update_fields h reference replacements =
     (case replacements of
        None \<Rightarrow> Inr (map (rebind reference) h)
      | Some names \<Rightarrow>
          if length names \<noteq> length h then Inl FieldLengthNotMatchError
          else
            (case first_duplicate [] names of
               Some x \<Rightarrow> Inl (DuplicateFieldNameError x)
             | None \<Rightarrow> Inr (map2 (rename reference) h names)))"

definition Update ::
  "store \<Rightarrow> addr \<Rightarrow> string \<Rightarrow> string list option \<Rightarrow> HeaderError option \<times> store" where
  "Update s a reference replacements =
     (case Update_fields (fields_at s a) reference replacements of
        Inl e \<Rightarrow> (Some e, s)
      | Inr h' \<Rightarrow> (None, if s a = None then s else s(a \<mapsto> h')))"

section \<open>Views and their encoders (encode.go)\<close>

text \<open>
  Modelled from the spec: the types \<open>Cell\<close> and \<open>View\<close> (view.go is not among the
  sources). A cell wraps its underlying value, which \<open>Value()\<close> returns; a view pairs a
  header with the rows of cells. The encoders only read the view.
\<close>

datatype Cell = Cell Primary

fun Value :: "Cell \<Rightarrow> Primary" where
  "Value (Cell v) = v"

record View =
  Header :: Header
  RecordSet :: "Cell list list"

subsection \<open>bareValues (lines 53-64)\<close>

definition bareValues :: "View \<Rightarrow> string list \<times> Primary list list" where
  "bareValues view = (TableColumnNames (Header view), map (map Value) (RecordSet view))"

subsection \<open>What the encoders are given\<close>

text \<open>
  The formats of package \<open>cmd\<close>, the settings of the text libraries, and the file
  description the caller hands to \<open>EncodeView\<close> by pointer. A rune is a 32-bit code
  point; \<open>DelimiterPositions\<close> is \<open>None\<close> for Go's nil.
\<close>

datatype Format = CSV | TSV | FIXED | JSON | LTSV | GFM | ORG | TEXT

datatype LineBreak = CR | LF | CRLF

datatype Encoding = UTF8 | SJIS

datatype EscapeType = Backslash | HexDigits | AllWithHexDigits

type_synonym rune = "32 word"

record FileInfo =
  Format :: Format
  Delimiter :: rune
  DelimiterPositions :: "int list option"
  LineBreak :: LineBreak
  NoHeader :: bool
  Encoding :: Encoding
  EncloseAll :: bool
  JsonEscape :: EscapeType
  PrettyPrint :: bool

record Flags =
  Quiet :: bool
  Color :: bool
  EastAsianEncoding :: bool
  CountDiacriticalSign :: bool
  CountFormatCode :: bool

datatype Palette = Palette

text \<open>The fields the writers of the text libraries take.\<close>

datatype csv_Field = csv_NewField string bool
datatype fixedlen_Field = fixedlen_NewField string FieldAlignment
datatype table_Field = table_NewField string FieldAlignment

datatype TableFormat = PlainTable | GFMTable | OrgTable

text \<open>The state of a \<open>table.Encoder\<close> when \<open>Encode\<close> is called: what
  \<open>NewEncoder\<close> was given, the settings assigned, and what \<open>SetHeader\<close>,
  \<open>AppendRecord\<close> and \<open>SetFieldAlignments\<close> stored.\<close>

record table_Encoder =
  e_Format :: TableFormat
  e_RecordLen :: nat
  e_LineBreak :: LineBreak
  e_EastAsianEncoding :: bool
  e_CountDiacriticalSign :: bool
  e_CountFormatCode :: bool
  e_WithoutHeader :: bool
  e_Encoding :: Encoding
  e_Header :: "table_Field list option"
  e_Records :: "table_Field list list"
  e_FieldAlignments :: "FieldAlignment list option"

text \<open>
  What the encoders call outside encode.go is a parameter: the process-wide flags and
  palette of package \<open>cmd\<close>, the printing of floats and timestamps, the conversion of a
  string to runes and of a rune to its bytes, and the writers and encoders of the text
  libraries. An operation that writes takes the state \<open>'fp\<close> of the destination (with
  the writer attached to it) and returns the new state, with the text of its error if it
  failed. \<open>'js\<close> is the JSON structure of package \<open>json\<close>.
\<close>

record ('fp, 'js) Ext =
  Formats :: Formatters
  GetFlags :: Flags
  GetPalette :: "Palette option"
  palette_Render :: "Palette option \<Rightarrow> Effect \<Rightarrow> string \<Rightarrow> string"
  runes_of :: "string \<Rightarrow> rune list"
  bytes_of :: "rune \<Rightarrow> string"
  csv_Write :: "rune \<Rightarrow> LineBreak \<Rightarrow> Encoding \<Rightarrow> csv_Field list \<Rightarrow> 'fp \<Rightarrow> string option \<times> 'fp"
  csv_Flush :: "'fp \<Rightarrow> 'fp"
  fixedlen_GeneratePositions :: "Encoding \<Rightarrow> fixedlen_Field list list \<Rightarrow> int list"
  fixedlen_Write ::
    "int list \<Rightarrow> LineBreak \<Rightarrow> Encoding \<Rightarrow> bool \<Rightarrow> fixedlen_Field list \<Rightarrow> 'fp \<Rightarrow> string option \<times> 'fp"
  fixedlen_Flush :: "'fp \<Rightarrow> 'fp"
  json_ConvertTableValueToJsonStructure :: "string list \<Rightarrow> Primary list list \<Rightarrow> string + 'js"
  json_Encode :: "EscapeType \<Rightarrow> LineBreak \<Rightarrow> bool \<Rightarrow> Palette option \<Rightarrow> 'js \<Rightarrow> string"
  ltsv_NewWriter :: "string list \<Rightarrow> LineBreak \<Rightarrow> Encoding \<Rightarrow> string option"
  ltsv_Write :: "string list \<Rightarrow> LineBreak \<Rightarrow> Encoding \<Rightarrow> string list \<Rightarrow> 'fp \<Rightarrow> string option \<times> 'fp"
  ltsv_Flush :: "'fp \<Rightarrow> 'fp"
  table_Encode :: "table_Encoder \<Rightarrow> string + string"
  bufio_WriteString :: "string \<Rightarrow> 'fp \<Rightarrow> string option \<times> 'fp"
  bufio_Flush :: "'fp \<Rightarrow> string option \<times> 'fp"

text \<open>
  What an encoder leaves behind: the destination, the calls of \<open>LogWarn\<close> (message and
  quiet flag) in order, and whether the palette is enabled.
\<close>

record 'fp World =
  fp :: 'fp
  warnings :: "(string \<times> bool) list"
  palette_enabled :: bool

text \<open>
  An encoder returns nil, the empty-result error, or the error of a library; writing past
  the end of a slice and reading through a nil pointer are run-time panics.
\<close>

datatype EncodeError =
    EmptyResultSetError
  | LibraryError string
  | IndexOutOfRange
  | NilPointer

fun Error :: "EncodeError \<Rightarrow> string" where
  "Error EmptyResultSetError = ''empty result set''"
| "Error (LibraryError msg) = msg"
| "Error IndexOutOfRange = ''runtime error: index out of range''"
| "Error NilPointer = ''runtime error: invalid memory address or nil pointer dereference''"

subsection \<open>Loops shared by the writers\<close>

text \<open>\<open>for i, v := range record { fields[i] = ... }\<close> on a slice of fixed length:
  \<open>None\<close> is the panic of an index past its end.\<close>

fun assign_fields :: "'f list \<Rightarrow> nat \<Rightarrow> 'f list \<Rightarrow> 'f list option" where
  "assign_fields flds i [] = Some flds"
| "assign_fields flds i (x # xs) =
     (if i < length flds then assign_fields (flds[i := x]) (Suc i) xs else None)"

text \<open>The loop over the records that reuses one slice of fields: each record overwrites
  the fields from the left and the slice is written; the first error ends it.\<close>

fun write_records ::
  "('f list \<Rightarrow> 'fp \<Rightarrow> string option \<times> 'fp) \<Rightarrow> ('v \<Rightarrow> 'f) \<Rightarrow> 'f list \<Rightarrow> 'v list list \<Rightarrow> 'fp
     \<Rightarrow> EncodeError option \<times> 'fp" where
  "write_records wr conv flds [] p = (None, p)"
| "write_records wr conv flds (record # records) p =
     (case assign_fields flds 0 (map conv record) of
        None \<Rightarrow> (Some IndexOutOfRange, p)
      | Some flds' \<Rightarrow>
          (case wr flds' p of
             (Some err, p') \<Rightarrow> (Some (LibraryError err), p')
           | (None, p') \<Rightarrow> write_records wr conv flds' records p'))"

text \<open>The loop that writes rows already built.\<close>

fun write_rows ::
  "('f list \<Rightarrow> 'fp \<Rightarrow> string option \<times> 'fp) \<Rightarrow> 'f list list \<Rightarrow> 'fp \<Rightarrow> EncodeError option \<times> 'fp" where
  "write_rows wr [] p = (None, p)"
| "write_rows wr (flds # fieldList) p =
     (case wr flds p of
        (Some err, p') \<Rightarrow> (Some (LibraryError err), p')
      | (None, p') \<Rightarrow> write_rows wr fieldList p')"

text \<open>After the loop the writer is flushed and nil returned; an error returns at once.\<close>

definition flushed ::
  "('fp \<Rightarrow> 'fp) \<Rightarrow> 'fp World \<Rightarrow> EncodeError option \<times> 'fp \<Rightarrow> EncodeError option \<times> 'fp World" where
  "flushed flush w r =
     (case r of
        (Some e, p) \<Rightarrow> (Some e, w\<lparr>fp := p\<rparr>)
      | (None, p) \<Rightarrow> (None, w\<lparr>fp := flush p\<rparr>))"

text \<open>The header row first, unless it is suppressed, then the records, on one slice of
  as many fields as the header has names, which starts as zero values \<open>zero\<close>.\<close>

definition write_table ::
  "('f list \<Rightarrow> 'fp \<Rightarrow> string option \<times> 'fp) \<Rightarrow> ('fp \<Rightarrow> 'fp) \<Rightarrow> (string \<Rightarrow> 'f) \<Rightarrow> ('v \<Rightarrow> 'f) \<Rightarrow> 'f
     \<Rightarrow> bool \<Rightarrow> string list \<Rightarrow> 'v list list \<Rightarrow> 'fp World \<Rightarrow> EncodeError option \<times> 'fp World" where
  "write_table wr flush hconv conv zero withoutHeader header records w =
     (if withoutHeader then
        flushed flush w
          (write_records wr conv (replicate (length header) zero) records (fp w))
      else
        (case wr (map hconv header) (fp w) of
           (Some err, p') \<Rightarrow> (Some (LibraryError err), w\<lparr>fp := p'\<rparr>)
         | (None, p') \<Rightarrow>
             flushed flush w (write_records wr conv (map hconv header) records p')))"

text \<open>\<open>bufio.NewWriter(fp)\<close>, \<open>WriteString(s)\<close>, then \<open>Flush()\<close>, whose error
  is the result.\<close>

definition write_string ::
  "('fp, 'js) Ext \<Rightarrow> 'fp World \<Rightarrow> string \<Rightarrow> EncodeError option \<times> 'fp World" where
  "write_string E w s =
     (case bufio_WriteString E s (fp w) of
        (Some err, p') \<Rightarrow> (Some (LibraryError err), w\<lparr>fp := p'\<rparr>)
      | (None, p') \<Rightarrow>
          (case bufio_Flush E p' of
             (r, p'') \<Rightarrow> (map_option LibraryError r, w\<lparr>fp := p''\<rparr>)))"

subsection \<open>encodeCSV (lines 66-98)\<close>

definition csv_field_of :: "('fp, 'js) Ext \<Rightarrow> bool \<Rightarrow> Primary \<Rightarrow> csv_Field" where
  "csv_field_of E encloseAll v =
     (case ConvertFieldContents (Formats E) v False of
        (str, e, _) \<Rightarrow>
          csv_NewField str (encloseAll \<and> (e = StringEffect \<or> e = DatetimeEffect)))"

definition encodeCSV ::
  "('fp, 'js) Ext \<Rightarrow> 'fp World \<Rightarrow> View \<Rightarrow> rune \<Rightarrow> LineBreak \<Rightarrow> bool \<Rightarrow> Encoding \<Rightarrow> bool
     \<Rightarrow> EncodeError option \<times> 'fp World" where
  "encodeCSV E w view delimiter lineBreak withoutHeader encoding encloseAll =
     (case bareValues view of
        (header, records) \<Rightarrow>
          write_table (csv_Write E delimiter lineBreak encoding) (csv_Flush E)
            (\<lambda>v. csv_NewField v encloseAll) (csv_field_of E encloseAll)
            (csv_NewField '''' False) withoutHeader header records w)"

subsection \<open>encodeFixedLengthFormat (lines 100-163)\<close>

definition fixedlen_field_of :: "('fp, 'js) Ext \<Rightarrow> Primary \<Rightarrow> fixedlen_Field" where
  "fixedlen_field_of E v =
     (case ConvertFieldContents (Formats E) v False of
        (str, _, a) \<Rightarrow> fixedlen_NewField str a)"

definition encodeFixedLengthFormat ::
  "('fp, 'js) Ext \<Rightarrow> 'fp World \<Rightarrow> View \<Rightarrow> int list option \<Rightarrow> LineBreak \<Rightarrow> bool \<Rightarrow> Encoding
     \<Rightarrow> EncodeError option \<times> 'fp World" where
  "encodeFixedLengthFormat E w view positions lineBreak withoutHeader encoding =
     (case bareValues view of
        (header, records) \<Rightarrow>
          (case positions of
             None \<Rightarrow>
               (let fieldList =
                      (if withoutHeader then []
                       else [map (\<lambda>v. fixedlen_NewField v NotAligned) header])
                      @ map (map (fixedlen_field_of E)) records;
                    measured = fixedlen_GeneratePositions E encoding fieldList
                in flushed (fixedlen_Flush E) w
                     (write_rows (fixedlen_Write E measured lineBreak encoding True)
                        fieldList (fp w)))
           | Some given \<Rightarrow>
               write_table (fixedlen_Write E given lineBreak encoding False)
                 (fixedlen_Flush E) (\<lambda>v. fixedlen_NewField v NotAligned)
                 (fixedlen_field_of E) (fixedlen_NewField '''' NotAligned)
                 withoutHeader header records w))"

subsection \<open>encodeJson (lines 165-191)\<close>

text \<open>The palette of the JSON encoder is nil unless line 178 assigns one; a palette
  that is not nil is enabled after the encoding (lines 182-184).\<close>

definition encodeJson ::
  "('fp, 'js) Ext \<Rightarrow> 'fp World \<Rightarrow> View \<Rightarrow> LineBreak \<Rightarrow> EscapeType \<Rightarrow> bool
     \<Rightarrow> EncodeError option \<times> 'fp World" where
  "encodeJson E w view lineBreak escapeType prettyPrint =
     (case bareValues view of
        (header, records) \<Rightarrow>
          (case json_ConvertTableValueToJsonStructure E header records of
             Inl err \<Rightarrow> (Some (LibraryError (''encoding to json failed: '' @ err)), w)
           | Inr data \<Rightarrow>
               (let palette =
                      (if prettyPrint \<and> Color (GetFlags E) then GetPalette E else None);
                    s = json_Encode E escapeType lineBreak prettyPrint palette data
                in write_string E
                     (if palette \<noteq> None then w\<lparr>palette_enabled := True\<rparr> else w) s)))"

subsection \<open>encodeText (lines 193-299)\<close>

text \<open>
  The loop of lines 246-275 over the runes of a cell: a line break is \<open>\r\n\<close>,
  \<open>\r\<close> or \<open>\n\<close>; each line that is not empty is rendered by itself and the lines
  are joined by \<open>\n\<close>. \<open>line\<close> is \<open>textLineBuf\<close>, \<open>out\<close> is \<open>textStrBuf\<close>.
\<close>

definition end_line :: "(string \<Rightarrow> string) \<Rightarrow> string \<Rightarrow> string \<Rightarrow> string" where
  "end_line render line out = (if line \<noteq> [] then out @ render line else out)"

fun render_lines ::
  "(string \<Rightarrow> string) \<Rightarrow> (rune \<Rightarrow> string) \<Rightarrow> rune list \<Rightarrow> string \<Rightarrow> string \<Rightarrow> string" where
  "render_lines render enc [] line out = end_line render line out"
| "render_lines render enc [r] line out =
     (if r = 13 \<or> r = 10
      then render_lines render enc [] [] (end_line render line out @ [char_of (10 :: nat)])
      else render_lines render enc [] (line @ enc r) out)"
| "render_lines render enc (r # n # rest) line out =
     (if r = 13 \<and> n = 10
      then render_lines render enc rest [] (end_line render line out @ [char_of (10 :: nat)])
      else if r = 13 \<or> r = 10
      then render_lines render enc (n # rest) [] (end_line render line out @ [char_of (10 :: nat)])
      else render_lines render enc (n # rest) (line @ enc r) out)"

definition table_field_of ::
  "('fp, 'js) Ext \<Rightarrow> Format \<Rightarrow> bool \<Rightarrow> Primary \<Rightarrow> table_Field" where
  "table_field_of E format isPlainTable v =
     (case ConvertFieldContents (Formats E) v isPlainTable of
        (str, effect, align) \<Rightarrow>
          table_NewField
            (if format = TEXT
             then render_lines (palette_Render E (GetPalette E) effect) (bytes_of E)
                    (runes_of E str) [] []
             else str)
            align)"

text \<open>\<open>aligns\<close>: the alignment of each cell of the record with index 0 (lines 279-281).\<close>

definition first_aligns :: "('fp, 'js) Ext \<Rightarrow> bool \<Rightarrow> Primary list list \<Rightarrow> FieldAlignment list" where
  "first_aligns E isPlainTable records =
     (case records of
        [] \<Rightarrow> []
      | record # _ \<Rightarrow>
          map (\<lambda>v. snd (snd (ConvertFieldContents (Formats E) v isPlainTable))) record)"

text \<open>The encoder as it stands when \<open>Encode\<close> is called (lines 216-288).\<close>

definition text_encoder ::
  "('fp, 'js) Ext \<Rightarrow> string list \<Rightarrow> Primary list list \<Rightarrow> Format \<Rightarrow> TableFormat \<Rightarrow> bool
     \<Rightarrow> LineBreak \<Rightarrow> bool \<Rightarrow> Encoding \<Rightarrow> table_Encoder" where
  "text_encoder E header records format tableFormat isPlainTable lineBreak withoutHeader
     encoding =
     \<lparr> e_Format = tableFormat,
       e_RecordLen = length records,
       e_LineBreak = lineBreak,
       e_EastAsianEncoding = EastAsianEncoding (GetFlags E),
       e_CountDiacriticalSign = CountDiacriticalSign (GetFlags E),
       e_CountFormatCode = CountFormatCode (GetFlags E),
       e_WithoutHeader = withoutHeader,
       e_Encoding = encoding,
       e_Header =
         (if withoutHeader then None
          else Some (map (\<lambda>v. table_NewField v Centering) header)),
       e_Records = map (map (table_field_of E format isPlainTable)) records,
       e_FieldAlignments =
         (if format = GFM then Some (first_aligns E isPlainTable records) else None) \<rparr>"

definition encode_table ::
  "('fp, 'js) Ext \<Rightarrow> 'fp World \<Rightarrow> table_Encoder \<Rightarrow> EncodeError option \<times> 'fp World" where
  "encode_table E w e =
     (case table_Encode E e of
        Inl err \<Rightarrow> (Some (LibraryError err), w)
      | Inr s \<Rightarrow> write_string E w s)"

text \<open>
  Modelled from the spec: \<open>LogWarn\<close> of package \<open>query\<close> (its file is not among the
  sources), the logging sink \<open>logWarn(message, quiet)\<close>. A call is recorded with its
  two arguments.
\<close>

definition LogWarn :: "string \<Rightarrow> bool \<Rightarrow> 'fp World \<Rightarrow> 'fp World" where
  "LogWarn message quiet w = w\<lparr>warnings := warnings w @ [(message, quiet)]\<rparr>"

definition encodeText ::
  "('fp, 'js) Ext \<Rightarrow> 'fp World \<Rightarrow> View \<Rightarrow> Format \<Rightarrow> LineBreak \<Rightarrow> bool \<Rightarrow> Encoding
     \<Rightarrow> EncodeError option \<times> 'fp World" where
  "encodeText E w view format lineBreak withoutHeader encoding =
     (case bareValues view of
        (header, records) \<Rightarrow>
          (case format of
             GFM \<Rightarrow>
               encode_table E w
                 (text_encoder E header records format GFMTable False lineBreak
                    withoutHeader encoding)
           | ORG \<Rightarrow>
               encode_table E w
                 (text_encoder E header records format OrgTable False lineBreak
                    withoutHeader encoding)
           | _ \<Rightarrow>
               if length header < 1
               then (Some EmptyResultSetError,
                     LogWarn ''Empty Fields'' (Quiet (GetFlags E)) w)
               else if length records < 1
               then (Some EmptyResultSetError,
                     LogWarn ''Empty RecordSet'' (Quiet (GetFlags E)) w)
               else
                 encode_table E w
                   (text_encoder E header records format PlainTable True lineBreak
                      withoutHeader encoding)))"

subsection \<open>encodeLTSV (lines 301-319)\<close>

definition encodeLTSV ::
  "('fp, 'js) Ext \<Rightarrow> 'fp World \<Rightarrow> View \<Rightarrow> LineBreak \<Rightarrow> Encoding
     \<Rightarrow> EncodeError option \<times> 'fp World" where
  "encodeLTSV E w view lineBreak encoding =
     (case bareValues view of
        (header, records) \<Rightarrow>
          (case ltsv_NewWriter E header lineBreak encoding of
             Some err \<Rightarrow> (Some (LibraryError err), w)
           | None \<Rightarrow>
               flushed (ltsv_Flush E) w
                 (write_records (ltsv_Write E header lineBreak encoding)
                    (\<lambda>v. fst (ConvertFieldContents (Formats E) v False))
                    (replicate (length header) '''') records (fp w))))"

subsection \<open>EncodeView (lines 35-51)\<close>

text \<open>
  \<open>fileInfo\<close> is a pointer: the file descriptions live in a store and the encoder is
  given an address. The TSV case assigns to \<open>fileInfo.Delimiter\<close> and falls through to
  the default case, which reads the delimiter back from the description.
\<close>

type_synonym FileInfos = "addr \<rightharpoonup> FileInfo"

definition EncodeView ::
  "('fp, 'js) Ext \<Rightarrow> 'fp World \<Rightarrow> FileInfos \<Rightarrow> View \<Rightarrow> addr
     \<Rightarrow> (EncodeError option \<times> 'fp World) \<times> FileInfos" where
  "EncodeView E w infos view fileInfo =
     (case infos fileInfo of
        None \<Rightarrow> ((Some NilPointer, w), infos)
      | Some fi \<Rightarrow>
          (case Format fi of
             FIXED \<Rightarrow>
               (encodeFixedLengthFormat E w view (DelimiterPositions fi) (LineBreak fi)
                  (NoHeader fi) (Encoding fi), infos)
           | JSON \<Rightarrow>
               (encodeJson E w view (LineBreak fi) (JsonEscape fi) (PrettyPrint fi), infos)
           | LTSV \<Rightarrow>
               (encodeLTSV E w view (LineBreak fi) (Encoding fi), infos)
           | GFM \<Rightarrow>
               (encodeText E w view (Format fi) (LineBreak fi) (NoHeader fi) (Encoding fi),
                infos)
           | ORG \<Rightarrow>
               (encodeText E w view (Format fi) (LineBreak fi) (NoHeader fi) (Encoding fi),
                infos)
           | TEXT \<Rightarrow>
               (encodeText E w view (Format fi) (LineBreak fi) (NoHeader fi) (Encoding fi),
                infos)
           | TSV \<Rightarrow>
               (let fi' = fi\<lparr>Delimiter := 9\<rparr>
                in (encodeCSV E w view (Delimiter fi') (LineBreak fi') (NoHeader fi')
                      (Encoding fi') (EncloseAll fi'),
                    infos(fileInfo \<mapsto> fi')))
           | CSV \<Rightarrow>
               (encodeCSV E w view (Delimiter fi) (LineBreak fi) (NoHeader fi)
                  (Encoding fi) (EncloseAll fi), infos)))"

section \<open>The headers of header_test.go\<close>

definition hfield ::
  "string \<Rightarrow> string \<Rightarrow> string list \<Rightarrow> int \<Rightarrow> bool \<Rightarrow> bool \<Rightarrow> HeaderField" where
  "hfield v c as n t j =
     \<lparr>View = v, Column = c, Aliases = as, Number = n, IsFromTable = t, IsJoinColumn = j\<rparr>"

text \<open>\<open>TestHeader_TableColumnNames\<close>, lines 42-59.\<close>

definition header_TableColumnNames :: Header where
  "header_TableColumnNames =
     [hfield ''t1'' ''c1'' [''a1''] 0 True False,
      hfield ''t1'' ''c2'' [''a3''] 0 False False,
      hfield '''' ''c3'' [] 0 True False]"

text \<open>\<open>TestHeader_ContainsObject\<close>, lines 110-154.\<close>

definition header_ContainsObject :: Header where
  "header_ContainsObject =
     [hfield ''t1'' ''c1'' [''a1''] 1 True False,
      hfield ''t1'' ''c2'' [''a2''] 2 True False,
      hfield ''t1'' ''count(*)'' [] 3 True False,
      hfield '''' ''c3'' [] 0 False False,
      hfield ''t2'' ''c1'' [''a3''] 1 True False,
      hfield '''' ''count(*)'' [] 0 False False,
      hfield '''' ''1'' [] 0 False False,
      hfield '''' ''1'' [] 0 False False]"

text \<open>\<open>TestHeader_ContainsNumber\<close>, lines 205-231.\<close>

definition header_ContainsNumber :: Header where
  "header_ContainsNumber =
     [hfield ''t1'' ''c1'' [''a1''] 1 True False,
      hfield ''t1'' ''c2'' [''a2''] 2 True False,
      hfield '''' ''c3'' [] 0 False False,
      hfield ''t2'' ''c1'' [''a3''] 1 True False]"

text \<open>\<open>TestHeader_Contains\<close>, lines 298-331.\<close>

definition header_Contains :: Header where
  "header_Contains =
     [hfield ''t1'' ''c1'' [''a1''] 0 True False,
      hfield ''t1'' ''c2'' [''a2''] 0 False False,
      hfield '''' ''c3'' [] 0 True False,
      hfield ''t2'' ''c1'' [''a3''] 0 True False,
      hfield ''t3'' ''c4'' [] 0 True False,
      hfield '''' ''c4'' [] 0 True True]"

text \<open>\<open>headerUpdateTests\<close>, lines 411-426: the header every case starts from, and
  the two results expected, with and without replacement fields (lines 433-446, 467-480).\<close>

definition header_Update :: Header where
  "header_Update =
     [hfield ''table1'' ''column1'' [''alias1''] 0 False False,
      hfield ''table1'' ''column2'' [''alias2''] 0 False False,
      hfield ''table2'' ''column3'' [] 0 False False]"

definition header_Update_Result :: Header where
  "header_Update_Result =
     [hfield ''ref1'' ''c1'' [] 0 False False,
      hfield ''ref1'' ''c2'' [] 0 False False,
      hfield ''ref1'' ''c3'' [] 0 False False]"

definition header_Update_Result_Without_Fields :: Header where
  "header_Update_Result_Without_Fields =
     [hfield ''ref1'' ''column1'' [] 0 False False,
      hfield ''ref1'' ''column2'' [] 0 False False,
      hfield ''ref1'' ''column3'' [] 0 False False]"

text \<open>A header whose first field has the number 1 and whose second has the column 1.\<close>

definition header_literal :: Header where
  "header_literal =
     [hfield ''t1'' ''c1'' [] 1 True False,
      hfield '''' ''1'' [] 0 False False]"

section \<open>Example views and an environment for the encoders\<close>

text \<open>The view of the end-to-end scenarios of the specification: two columns of table t1
  and one row.\<close>

definition view_scenario :: View where
  "view_scenario =
     \<lparr>Header = [hfield ''t1'' ''c1'' [] 1 True False, hfield ''t1'' ''c2'' [] 2 True False],
      RecordSet = [[Cell (Integer 1), Cell (String ''x'')]]\<rparr>"

text \<open>A view on the header of \<open>TestHeader_TableColumnNames\<close>, whose second field is not
  from a table, with one row of three cells.\<close>

definition view_expression :: View where
  "view_expression =
     \<lparr>Header = header_TableColumnNames,
      RecordSet = [[Cell (String ''a''), Cell (Integer 2), Cell (String ''c'')]]\<rparr>"

text \<open>The view of the scenarios without its row, and with a second row.\<close>

definition view_no_records :: View where
  "view_no_records = view_scenario\<lparr>RecordSet := []\<rparr>"

definition view_two_rows :: View where
  "view_two_rows =
     view_scenario\<lparr>RecordSet := [[Cell (Integer 1), Cell (String ''x'')],
                                 [Cell (Boolean True), Cell Null]]\<rparr>"

text \<open>An environment to run the encoders in: the destination is the list of the lines
  written; a delimited line is its fields separated by the delimiter; the table encoder
  writes only its format and its alignment markers; nothing fails.\<close>

fun csv_line :: "string \<Rightarrow> csv_Field list \<Rightarrow> string" where
  "csv_line d [] = ''''"
| "csv_line d [csv_NewField s q] = s"
| "csv_line d (csv_NewField s q # f # fs) = s @ d @ csv_line d (f # fs)"

fun align_mark :: "FieldAlignment \<Rightarrow> string" where
  "align_mark NotAligned = ''-''"
| "align_mark Centering = ''c''"
| "align_mark RightAligned = ''r''"
| "align_mark LeftAligned = ''l''"

definition example_Ext :: "(string list, unit) Ext" where
  "example_Ext =
     \<lparr> Formats = \<lparr>Float_String = (\<lambda>f. ''float''), Datetime_Format = (\<lambda>t. ''datetime'')\<rparr>,
       GetFlags = \<lparr>Quiet = False, Color = False, EastAsianEncoding = False,
                   CountDiacriticalSign = False, CountFormatCode = False\<rparr>,
       GetPalette = Some Palette,
       palette_Render = (\<lambda>p e s. s),
       runes_of = map of_char,
       bytes_of = (\<lambda>r. [char_of (unat r)]),
       csv_Write = (\<lambda>d lb enc flds p. (None, p @ [csv_line [char_of (unat d)] flds])),
       csv_Flush = (\<lambda>p. p),
       fixedlen_GeneratePositions = (\<lambda>enc rows. []),
       fixedlen_Write = (\<lambda>pos lb enc sp flds p. (None, p @ [''fixed''])),
       fixedlen_Flush = (\<lambda>p. p),
       json_ConvertTableValueToJsonStructure = (\<lambda>header records. Inr ()),
       json_Encode = (\<lambda>esc lb pretty palette data. ''json''),
       ltsv_NewWriter = (\<lambda>header lb enc. None),
       ltsv_Write = (\<lambda>header lb enc flds p. (None, p @ [''ltsv''])),
       ltsv_Flush = (\<lambda>p. p),
       table_Encode = (\<lambda>e. Inr (case e_FieldAlignments e of
                                   None \<Rightarrow> ''table''
                                 | Some al \<Rightarrow> concat (map align_mark al))),
       bufio_WriteString = (\<lambda>s p. (None, p @ [s])),
       bufio_Flush = (\<lambda>p. (None, p)) \<rparr>"

definition example_World :: "string list World" where
  "example_World = \<lparr>fp = [], warnings = [], palette_enabled = False\<rparr>"

definition example_FileInfo :: FileInfo where
  "example_FileInfo =
     \<lparr> Format = TSV, Delimiter = 44, DelimiterPositions = None, LineBreak = LF,
       NoHeader = False, Encoding = UTF8, EncloseAll = False, JsonEscape = Backslash,
       PrettyPrint = False \<rparr>"

section \<open>The model of the header against its tests\<close>

lemmas header_defs = hfield_def Contains_def ContainsNumber_def unique_index_def indices_def
  field_matches_def join_matches_def plain_matches_def TableColumnNames_def

lemmas update_defs = Update_def Update_fields_def fields_at_def header_Update_def
  header_Update_Result_def header_Update_Result_Without_Fields_def hfield_def
  rebind_def rename_def

lemma FormatInt_digits:
  "FormatInt 0 = ''0''" "FormatInt 1 = ''1''" "FormatInt 2 = ''2''" "FormatInt 9 = ''9''"
  by code_simp+

text \<open>\<open>TestHeader_TableColumnNames\<close>, lines 60-68.\<close>

lemma TestHeader_TableColumnNames:
  "TableColumnNames header_TableColumnNames = [''c1'', ''c3'']"
  by (simp add: header_TableColumnNames_def header_defs)

text \<open>\<open>headerContainsObjectTests\<close>, lines 71-107.\<close>

lemma TestHeader_ContainsObject:
  "ContainsObject header_ContainsObject (AggregateFunction ''count(*)'') = Inr 5"
  "ContainsObject header_ContainsObject (FieldReference ''t2'' ''c1'') = Inr 4"
  "ContainsObject header_ContainsObject (ColumnNumber ''t1'' 2) = Inr 1"
  "map_sum ErrorMessage id (ContainsObject header_ContainsObject (IntegerLiteral 1)) =
     Inl ''[L:- C:-] field 1 is ambiguous''"
  "map_sum ErrorMessage id (ContainsObject header_ContainsObject (IntegerLiteral 2)) =
     Inl ''[L:- C:-] field 2 does not exist''"
  by (simp_all add: header_ContainsObject_def header_defs FormatInt_digits)

text \<open>\<open>headerContainsNumberTests\<close>, lines 176-202.\<close>

lemma TestHeader_ContainsNumber:
  "ContainsNumber header_ContainsNumber ''t1'' 2 = Inr 1"
  "map_sum ErrorMessage id (ContainsNumber header_ContainsNumber ''t1'' 0) =
     Inl ''[L:- C:-] field t1.0 does not exist''"
  "map_sum ErrorMessage id (ContainsNumber header_ContainsNumber ''t1'' 9) =
     Inl ''[L:- C:-] field t1.9 does not exist''"
  by (simp_all add: header_ContainsNumber_def header_defs FormatInt_digits)

text \<open>\<open>headerContainsTests\<close>, lines 253-295.\<close>

lemma TestHeader_Contains:
  "Contains header_Contains ''t2'' ''c1'' = Inr 3"
  "Contains header_Contains '''' ''a2'' = Inr 1"
  "Contains header_Contains '''' ''c2'' = Inr 1"
  "Contains header_Contains '''' ''c4'' = Inr 5"
  "map_sum ErrorMessage id (Contains header_Contains '''' ''c1'') =
     Inl ''[L:- C:-] field c1 is ambiguous''"
  "map_sum ErrorMessage id (Contains header_Contains '''' ''d1'') =
     Inl ''[L:- C:-] field d1 does not exist''"
  by (simp_all add: header_Contains_def header_defs)

text \<open>\<open>headerUpdateTests\<close>, lines 401-533: the header at address 0 is updated and
  read back, as \<open>TestHeader_Update\<close> does with \<open>v.Header\<close>.\<close>

lemma TestHeader_Update:
  "Update [0 \<mapsto> header_Update] 0 ''ref1'' (Some [''c1'', ''c2'', ''c3'']) =
     (None, [0 \<mapsto> header_Update_Result])"
  "Update [0 \<mapsto> header_Update] 0 ''ref1'' None =
     (None, [0 \<mapsto> header_Update_Result_Without_Fields])"
  "map_option ErrorMessage (fst (Update [0 \<mapsto> header_Update] 0 ''ref1'' (Some [''c1'', ''c2'']))) =
     Some ''[L:- C:-] field length does not match''"
  "map_option ErrorMessage
     (fst (Update [0 \<mapsto> header_Update] 0 ''ref1'' (Some [''c1'', ''c2'', ''c2'']))) =
     Some ''[L:- C:-] field name c2 is a duplicate''"
  by (simp_all add: update_defs)

section \<open>Resolution of field references\<close>

lemma indices_from_Cons:
  "indices_from k P xs = j # rest \<Longrightarrow>
     k \<le> j \<and> j - k < length xs \<and> P (xs ! (j - k)) \<and> (\<forall>i<j - k. \<not> P (xs ! i))"
proof (induction xs arbitrary: k)
  case Nil
  then show ?case by simp
next
  case (Cons x xs)
  show ?case
  proof (cases "P x")
    case True
    with Cons.prems show ?thesis by simp
  next
    case False
    with Cons.prems have "indices_from (Suc k) P xs = j # rest" by simp
    from Cons.IH [OF this]
    have *: "Suc k \<le> j" "j - Suc k < length xs" "P (xs ! (j - Suc k))"
      "\<forall>i<j - Suc k. \<not> P (xs ! i)" by auto
    from * have eq: "j - k = Suc (j - Suc k)" by arith
    show ?thesis
    proof (intro conjI allI impI)
      show "k \<le> j" using * by arith
      show "j - k < length (x # xs)" using * eq by simp
      show "P ((x # xs) ! (j - k))" using * eq by simp
      fix i assume "i < j - k"
      then show "\<not> P ((x # xs) ! i)" using * eq False by (cases i) auto
    qed
  qed
qed

lemma indices_first:
  "indices P xs = j # rest \<Longrightarrow> j < length xs \<and> P (xs ! j) \<and> (\<forall>i<j. \<not> P (xs ! i))"
  using indices_from_Cons [of 0 P xs j rest] by (simp add: indices_def)

lemma length_indices_from: "length (indices_from k P xs) = length (filter P xs)"
  by (induction xs arbitrary: k) auto

lemma length_indices: "length (indices P xs) = length (filter P xs)"
  by (simp add: indices_def length_indices_from)

lemma length_filter_split:
  "length (filter P xs) =
     length (filter (\<lambda>x. P x \<and> Q x) xs) + length (filter (\<lambda>x. P x \<and> \<not> Q x) xs)"
  by (induction xs) auto

text \<open>
  C1, as the header resolves it. Let an unqualified name match two or more fields, by
  column or by alias. When two or more of the matching fields are not join columns,
  \<open>Contains\<close> and \<open>ContainsObject\<close> fail with the error "field name is ambiguous".
  Otherwise, at most one matching field not being a join column, they return the index
  of the first matching join column, whether or not the other field comes before it.
\<close>

theorem Contains_duplicate_matches:
  assumes "2 \<le> length (filter (field_matches name) h)"
  shows "(2 \<le> length (filter (\<lambda>f. field_matches name f \<and> \<not> IsJoinColumn f) h) \<longrightarrow>
            Contains h '''' name = Inl (FieldAmbiguousError name)
            \<and> ContainsObject h (FieldReference '''' name) = Inl (FieldAmbiguousError name))
       \<and> (length (filter (\<lambda>f. field_matches name f \<and> \<not> IsJoinColumn f) h) < 2 \<longrightarrow>
            (\<exists>j. Contains h '''' name = Inr j
                 \<and> ContainsObject h (FieldReference '''' name) = Inr j
                 \<and> j < length h \<and> field_matches name (h ! j) \<and> IsJoinColumn (h ! j)
                 \<and> (\<forall>i<j. \<not> (field_matches name (h ! i) \<and> IsJoinColumn (h ! i)))))"
proof (intro conjI impI)
  assume "2 \<le> length (filter (\<lambda>f. field_matches name f \<and> \<not> IsJoinColumn f) h)"
  then have "2 \<le> length (plain_matches name h)"
    by (simp add: plain_matches_def length_indices)
  then show "Contains h '''' name = Inl (FieldAmbiguousError name)"
    by (simp add: Contains_def)
  then show "ContainsObject h (FieldReference '''' name) = Inl (FieldAmbiguousError name)"
    by simp
next
  assume few: "length (filter (\<lambda>f. field_matches name f \<and> \<not> IsJoinColumn f) h) < 2"
  then have plain: "\<not> 2 \<le> length (plain_matches name h)"
    by (simp add: plain_matches_def length_indices)
  from assms few
  have "0 < length (filter (\<lambda>f. field_matches name f \<and> IsJoinColumn f) h)"
    using length_filter_split [of "field_matches name" h IsJoinColumn] by arith
  then have "0 < length (join_matches name h)"
    by (simp add: join_matches_def length_indices)
  then have "join_matches name h \<noteq> []"
    by simp
  then obtain j rest where js: "join_matches name h = j # rest"
    by (cases "join_matches name h") auto
  then have "indices (\<lambda>f. field_matches name f \<and> IsJoinColumn f) h = j # rest"
    by (simp add: join_matches_def)
  from indices_first [OF this]
  have "j < length h" "field_matches name (h ! j)" "IsJoinColumn (h ! j)"
    "\<forall>i<j. \<not> (field_matches name (h ! i) \<and> IsJoinColumn (h ! i))" by auto
  moreover have "Contains h '''' name = Inr j"
    using plain js by (simp add: Contains_def)
  ultimately show "\<exists>j. Contains h '''' name = Inr j
                 \<and> ContainsObject h (FieldReference '''' name) = Inr j
                 \<and> j < length h \<and> field_matches name (h ! j) \<and> IsJoinColumn (h ! j)
                 \<and> (\<forall>i<j. \<not> (field_matches name (h ! i) \<and> IsJoinColumn (h ! i)))"
    by simp
qed

text \<open>On the header of \<open>TestHeader_Contains\<close>: c4 is the column of the field t3.c4 and
  of one join column, and resolves to the latter; c1 is the column of two fields that are
  not join columns, and is ambiguous.\<close>

theorem Contains_duplicate_matches_witness:
  "2 \<le> length (filter (field_matches ''c4'') header_Contains)
   \<and> length (filter (\<lambda>f. field_matches ''c4'' f \<and> \<not> IsJoinColumn f) header_Contains) < 2
   \<and> Contains header_Contains '''' ''c4'' = Inr 5
   \<and> 2 \<le> length (filter (field_matches ''c1'') header_Contains)
   \<and> 2 \<le> length (filter (\<lambda>f. field_matches ''c1'' f \<and> \<not> IsJoinColumn f) header_Contains)
   \<and> Contains header_Contains '''' ''c1'' = Inl (FieldAmbiguousError ''c1'')"
proof -
  have a: "2 \<le> length (filter (field_matches ''c4'') header_Contains)"
    by (simp add: header_Contains_def hfield_def field_matches_def)
  have b: "2 \<le> length (filter (field_matches ''c1'') header_Contains)"
    by (simp add: header_Contains_def hfield_def field_matches_def)
  show ?thesis
    using Contains_duplicate_matches [OF a] Contains_duplicate_matches [OF b]
    by (simp add: header_Contains_def header_defs)
qed

text \<open>
  C1 as it is stated fails on the header of \<open>TestHeader_Contains\<close>: the name c4 matches
  two fields, of which the first, t3.c4, is not a join column, so the duplicates are not
  join-produced duplicate columns; yet the reference is not ambiguous and resolves to
  index 5, as the test expects.
\<close>

theorem Contains_join_column_counterexample:
  "length (filter (field_matches ''c4'') header_Contains) = 2
   \<and> \<not> list_all (\<lambda>f. IsFromTable f \<and> IsJoinColumn f)
         (filter (field_matches ''c4'') header_Contains)
   \<and> Contains header_Contains '''' ''c4'' = Inr 5
   \<and> ContainsObject header_Contains (FieldReference '''' ''c4'') = Inr 5
   \<and> Contains header_Contains '''' ''c4'' \<noteq> Inl (FieldAmbiguousError ''c4'')"
  by (simp add: header_Contains_def header_defs)

lemma unique_index_none:
  assumes "length (filter P h) = 0"
  shows "unique_index txt (indices P h) = Inl (FieldNotExistError txt)"
proof -
  from assms have "length (indices P h) = 0" by (simp only: length_indices)
  then have "indices P h = []" by simp
  then show ?thesis by (simp add: unique_index_def)
qed

lemma unique_index_many:
  assumes "2 \<le> length (filter P h)"
  shows "unique_index txt (indices P h) = Inl (FieldAmbiguousError txt)"
proof -
  from assms have "2 \<le> length (indices P h)" by (simp only: length_indices)
  then obtain i j rest where "indices P h = i # j # rest"
    by (cases "indices P h"; cases "tl (indices P h)") auto
  then show ?thesis by (simp add: unique_index_def)
qed

lemma unique_index_one:
  assumes "length (filter P h) = 1"
  shows "\<exists>i. unique_index txt (indices P h) = Inr i \<and> i < length h \<and> P (h ! i)"
proof -
  from assms have "length (indices P h) = 1" by (simp only: length_indices)
  then obtain i where i: "indices P h = [i]"
    by (cases "indices P h") auto
  from indices_first [OF this] have "i < length h" "P (h ! i)" by auto
  then show ?thesis using i by (simp add: unique_index_def)
qed

lemma indices_from_map:
  "(\<And>x. P (g x) = P x) \<Longrightarrow> indices_from k P (map g xs) = indices_from k P xs"
  by (induction xs arbitrary: k) auto

text \<open>
  C3. A bare integer literal resolves by the fields whose column is its decimal text, and
  by nothing else: no such field is the error "field n does not exist", two or more are
  "field n is ambiguous", exactly one is that field's index. The numbers of the fields
  play no part: replacing them changes nothing.
\<close>

theorem ContainsObject_integer_literal:
  "(length (filter (\<lambda>f. Column f = FormatInt n) h) = 0 \<longrightarrow>
      ContainsObject h (IntegerLiteral n) = Inl (FieldNotExistError (FormatInt n)))
   \<and> (2 \<le> length (filter (\<lambda>f. Column f = FormatInt n) h) \<longrightarrow>
      ContainsObject h (IntegerLiteral n) = Inl (FieldAmbiguousError (FormatInt n)))
   \<and> (length (filter (\<lambda>f. Column f = FormatInt n) h) = 1 \<longrightarrow>
      (\<exists>i. ContainsObject h (IntegerLiteral n) = Inr i \<and> i < length h
           \<and> Column (h ! i) = FormatInt n))
   \<and> ContainsObject (map (\<lambda>f. f\<lparr>Number := number f\<rparr>) h) (IntegerLiteral n) =
       ContainsObject h (IntegerLiteral n)
   \<and> ErrorMessage (FieldNotExistError (FormatInt n)) =
       ''[L:- C:-] field '' @ FormatInt n @ '' does not exist''
   \<and> ErrorMessage (FieldAmbiguousError (FormatInt n)) =
       ''[L:- C:-] field '' @ FormatInt n @ '' is ambiguous''"
proof (intro conjI impI)
  assume "length (filter (\<lambda>f. Column f = FormatInt n) h) = 0"
  then show "ContainsObject h (IntegerLiteral n) = Inl (FieldNotExistError (FormatInt n))"
    by (simp only: ContainsObject.simps unique_index_none)
next
  assume "2 \<le> length (filter (\<lambda>f. Column f = FormatInt n) h)"
  then show "ContainsObject h (IntegerLiteral n) = Inl (FieldAmbiguousError (FormatInt n))"
    by (simp only: ContainsObject.simps unique_index_many)
next
  assume "length (filter (\<lambda>f. Column f = FormatInt n) h) = 1"
  from unique_index_one [OF this, of "FormatInt n"]
  show "\<exists>i. ContainsObject h (IntegerLiteral n) = Inr i \<and> i < length h
           \<and> Column (h ! i) = FormatInt n"
    by (simp only: ContainsObject.simps)
next
  show "ContainsObject (map (\<lambda>f. f\<lparr>Number := number f\<rparr>) h) (IntegerLiteral n) =
       ContainsObject h (IntegerLiteral n)"
    by (simp add: indices_def indices_from_map)
qed simp_all

text \<open>On the header of \<open>TestHeader_ContainsObject\<close>, where the second field has the
  number 2 and no field the column 2, and two fields have the column 1; and on a header
  whose first field has the number 1 and whose second field has the column 1.\<close>

theorem ContainsObject_integer_literal_witness:
  "length (filter (\<lambda>f. Column f = FormatInt 2) header_ContainsObject) = 0
   \<and> ContainsObject header_ContainsObject (IntegerLiteral 2) = Inl (FieldNotExistError ''2'')
   \<and> Number (header_ContainsObject ! 1) = 2
   \<and> 2 \<le> length (filter (\<lambda>f. Column f = FormatInt 1) header_ContainsObject)
   \<and> ContainsObject header_ContainsObject (IntegerLiteral 1) = Inl (FieldAmbiguousError ''1'')
   \<and> length (filter (\<lambda>f. Column f = FormatInt 1) header_literal) = 1
   \<and> ContainsObject header_literal (IntegerLiteral 1) = Inr 1
   \<and> Number (header_literal ! 0) = 1"
  using ContainsObject_integer_literal [of 2 header_ContainsObject]
    ContainsObject_integer_literal [of 1 header_ContainsObject]
    ContainsObject_integer_literal [of 1 header_literal]
  by (simp add: header_ContainsObject_def header_literal_def header_defs FormatInt_digits)


section \<open>Update\<close>

lemma first_duplicate_None:
  "(first_duplicate seen xs = None) = (distinct xs \<and> set xs \<inter> set seen = {})"
  by (induction xs arbitrary: seen) auto

lemma first_duplicate_Some:
  "first_duplicate seen xs = Some x \<Longrightarrow>
     (x \<in> set seen \<and> x \<in> set xs) \<or> 2 \<le> count_list xs x"
proof (induction xs arbitrary: seen)
  case Nil
  then show ?case by simp
next
  case (Cons y ys)
  show ?case
  proof (cases "y \<in> set seen")
    case True
    with Cons.prems show ?thesis by simp
  next
    case False
    with Cons.prems have "first_duplicate (seen @ [y]) ys = Some x"
      by simp
    from Cons.IH [OF this]
    consider "x \<in> set seen" "x \<in> set ys" | "x = y" "x \<in> set ys" | "2 \<le> count_list ys x"
      by auto
    then show ?thesis
    proof cases
      case 1
      then show ?thesis by simp
    next
      case 2
      then have "count_list ys x \<noteq> 0" by (simp add: count_list_0_iff)
      with 2 show ?thesis by simp
    next
      case 3
      then show ?thesis by simp
    qed
  qed
qed

lemma Update_fields_None:
  "Update_fields h reference None = Inr (map (rebind reference) h)"
  by (simp add: Update_fields_def)

lemma map2_rename_Column:
  "length names = length h \<Longrightarrow> map Column (map2 (rename reference) h names) = names"
  by (induction h names rule: list_induct2') (auto simp: rename_def)

lemma map2_rename_rebound:
  "f \<in> set (map2 (rename reference) h names) \<Longrightarrow>
     View f = reference \<and> Aliases f = [] \<and> Number f = 0"
  by (induction h names rule: list_induct2') (auto simp: rename_def rebind_def)

text \<open>
  C4, with the duplicate error for replacements of the right length. On a header \<open>h\<close>,
  \<open>Update\<close> without replacements succeeds, keeps the number and the names of the
  columns, sets every view to the reference and clears aliases and numbers; replacements
  that are not as many as the fields fail with the length error; replacements as many as
  the fields with a repeated name fail with the duplicate error, for a name that occurs twice;
  distinct replacements as many as the fields succeed, every column becoming its
  replacement, aliases and numbers cleared.
\<close>

theorem Update_result:
  assumes "s a = Some h"
  shows "(\<exists>h'. Update s a reference None = (None, s(a \<mapsto> h'))
             \<and> length h' = length h \<and> map Column h' = map Column h
             \<and> (\<forall>f\<in>set h'. View f = reference \<and> Aliases f = [] \<and> Number f = 0))
       \<and> (length names \<noteq> length h \<longrightarrow>
             Update s a reference (Some names) = (Some FieldLengthNotMatchError, s))
       \<and> (length names = length h \<and> \<not> distinct names \<longrightarrow>
             (\<exists>x. Update s a reference (Some names) = (Some (DuplicateFieldNameError x), s)
                  \<and> 2 \<le> count_list names x))
       \<and> (length names = length h \<and> distinct names \<longrightarrow>
             (\<exists>h'. Update s a reference (Some names) = (None, s(a \<mapsto> h'))
                  \<and> length h' = length h \<and> map Column h' = names
                  \<and> (\<forall>f\<in>set h'. View f = reference \<and> Aliases f = [] \<and> Number f = 0)))"
proof (intro conjI impI)
  have "Update s a reference None = (None, s(a \<mapsto> map (rebind reference) h))"
    using assms by (simp add: Update_def Update_fields_def fields_at_def)
  moreover have "map Column (map (rebind reference) h) = map Column h"
    by (simp add: rebind_def)
  moreover have "\<forall>f\<in>set (map (rebind reference) h).
      View f = reference \<and> Aliases f = [] \<and> Number f = 0"
    by (simp add: rebind_def)
  ultimately show "\<exists>h'. Update s a reference None = (None, s(a \<mapsto> h'))
             \<and> length h' = length h \<and> map Column h' = map Column h
             \<and> (\<forall>f\<in>set h'. View f = reference \<and> Aliases f = [] \<and> Number f = 0)"
    by (intro exI [of _ "map (rebind reference) h"]) simp
next
  assume "length names \<noteq> length h"
  then show "Update s a reference (Some names) = (Some FieldLengthNotMatchError, s)"
    using assms by (simp add: Update_def Update_fields_def fields_at_def)
next
  assume a: "length names = length h \<and> \<not> distinct names"
  then have "first_duplicate [] names \<noteq> None"
    by (simp add: first_duplicate_None)
  then obtain x where x: "first_duplicate [] names = Some x" by auto
  from first_duplicate_Some [OF this] have "2 \<le> count_list names x" by simp
  moreover have "Update s a reference (Some names) = (Some (DuplicateFieldNameError x), s)"
    using assms a x by (simp add: Update_def Update_fields_def fields_at_def)
  ultimately show "\<exists>x. Update s a reference (Some names) = (Some (DuplicateFieldNameError x), s)
                  \<and> 2 \<le> count_list names x" by blast
next
  assume a: "length names = length h \<and> distinct names"
  then have nd: "first_duplicate [] names = None"
    by (simp add: first_duplicate_None)
  have "Update s a reference (Some names) = (None, s(a \<mapsto> map2 (rename reference) h names))"
    using assms a nd by (simp add: Update_def Update_fields_def fields_at_def)
  moreover have "length (map2 (rename reference) h names) = length h"
    using a by simp
  moreover have "map Column (map2 (rename reference) h names) = names"
    using a map2_rename_Column by blast
  moreover have "\<forall>f\<in>set (map2 (rename reference) h names).
      View f = reference \<and> Aliases f = [] \<and> Number f = 0"
    by (rule ballI) (rule map2_rename_rebound)
  ultimately show "\<exists>h'. Update s a reference (Some names) = (None, s(a \<mapsto> h'))
                  \<and> length h' = length h \<and> map Column h' = names
                  \<and> (\<forall>f\<in>set h'. View f = reference \<and> Aliases f = [] \<and> Number f = 0)"
    by (intro exI [of _ "map2 (rename reference) h names"] conjI)
qed

text \<open>The four cases of \<open>headerUpdateTests\<close>.\<close>

theorem Update_result_witness:
  "[0 \<mapsto> header_Update] 0 = Some header_Update
   \<and> Update [0 \<mapsto> header_Update] 0 ''ref1'' None =
       (None, [0 \<mapsto> header_Update_Result_Without_Fields])
   \<and> length [''c1'', ''c2''] \<noteq> length header_Update
   \<and> Update [0 \<mapsto> header_Update] 0 ''ref1'' (Some [''c1'', ''c2'']) =
       (Some FieldLengthNotMatchError, [0 \<mapsto> header_Update])
   \<and> length [''c1'', ''c2'', ''c2''] = length header_Update
   \<and> \<not> distinct [''c1'', ''c2'', ''c2'']
   \<and> Update [0 \<mapsto> header_Update] 0 ''ref1'' (Some [''c1'', ''c2'', ''c2'']) =
       (Some (DuplicateFieldNameError ''c2''), [0 \<mapsto> header_Update])
   \<and> distinct [''c1'', ''c2'', ''c3'']
   \<and> Update [0 \<mapsto> header_Update] 0 ''ref1'' (Some [''c1'', ''c2'', ''c3'']) =
       (None, [0 \<mapsto> header_Update_Result])"
proof -
  have r: "Update [0 \<mapsto> header_Update] 0 ''ref1'' (Some [''c1'', ''c2'']) =
       (Some FieldLengthNotMatchError, [0 \<mapsto> header_Update])"
    using Update_result [of "[0 \<mapsto> header_Update]" 0 header_Update "''ref1''" "[''c1'', ''c2'']"]
    by (simp add: header_Update_def)
  show ?thesis
    by (simp only: r) (simp add: update_defs)
qed

text \<open>
  C4 as it is stated fails where the two errors meet: two equal replacements for a header
  of one field are duplicates, and fail with the length error, not the duplicate error.
\<close>

theorem Update_duplicate_counterexample:
  "\<not> distinct [''c'', ''c'']
   \<and> Update [0 \<mapsto> [hfield ''t'' ''column1'' [] 0 False False]] 0 ''ref1'' (Some [''c'', ''c'']) =
       (Some FieldLengthNotMatchError, [0 \<mapsto> [hfield ''t'' ''column1'' [] 0 False False]])
   \<and> fst (Update [0 \<mapsto> [hfield ''t'' ''column1'' [] 0 False False]] 0 ''ref1'' (Some [''c'', ''c''])) \<noteq>
       Some (DuplicateFieldNameError ''c'')"
  by (simp add: update_defs)

text \<open>
  C5, as the header is updated. \<open>Update\<close> returns the error only. When it succeeds,
  the fields of the header it was called on are themselves the new fields afterwards
  (every view the reference, aliases and numbers cleared), and no other header changes;
  when it fails, the store is as it was.
\<close>

theorem Update_in_place:
  assumes "s a = Some h"
  shows "(fst (Update s a reference replacements) = None \<longrightarrow>
            (\<exists>h'. Update_fields h reference replacements = Inr h'
                 \<and> snd (Update s a reference replacements) = s(a \<mapsto> h')
                 \<and> length h' = length h
                 \<and> (\<forall>f\<in>set h'. View f = reference \<and> Aliases f = [] \<and> Number f = 0)))
       \<and> (fst (Update s a reference replacements) \<noteq> None \<longrightarrow>
            snd (Update s a reference replacements) = s)"
proof (cases "Update_fields h reference replacements")
  case (Inl e)
  then show ?thesis using assms by (simp add: Update_def fields_at_def)
next
  case (Inr h')
  have "length h' = length h \<and> (\<forall>f\<in>set h'. View f = reference \<and> Aliases f = [] \<and> Number f = 0)"
  proof (cases replacements)
    case None
    with Inr show ?thesis by (auto simp: Update_fields_def rebind_def)
  next
    case (Some names)
    with Inr have len: "length names = length h"
      and h': "h' = map2 (rename reference) h names"
      by (auto simp: Update_fields_def split: if_splits option.splits)
    have "\<forall>f\<in>set (map2 (rename reference) h names).
        View f = reference \<and> Aliases f = [] \<and> Number f = 0"
      by (rule ballI) (rule map2_rename_rebound)
    with len h' show ?thesis by simp
  qed
  with Inr show ?thesis using assms by (simp add: Update_def fields_at_def)
qed


theorem Update_in_place_witness:
  "[0 \<mapsto> header_Update] 0 = Some header_Update
   \<and> fst (Update [0 \<mapsto> header_Update] 0 ''ref1'' None) = None
   \<and> snd (Update [0 \<mapsto> header_Update] 0 ''ref1'' None) 0 = Some header_Update_Result_Without_Fields
   \<and> fst (Update [0 \<mapsto> header_Update] 0 ''ref1'' (Some [''c1'', ''c2''])) \<noteq> None
   \<and> snd (Update [0 \<mapsto> header_Update] 0 ''ref1'' (Some [''c1'', ''c2''])) = [0 \<mapsto> header_Update]"
proof -
  have f: "fst (Update [0 \<mapsto> header_Update] 0 ''ref1'' (Some [''c1'', ''c2''])) \<noteq> None"
    by (simp add: update_defs)
  have r: "snd (Update [0 \<mapsto> header_Update] 0 ''ref1'' (Some [''c1'', ''c2''])) = [0 \<mapsto> header_Update]"
    using Update_in_place [of "[0 \<mapsto> header_Update]" 0 header_Update "''ref1''" "Some [''c1'', ''c2'']"] f
    by simp
  show ?thesis
    by (simp only: r) (simp add: update_defs)
qed

text \<open>
  C5 as it is stated fails on the second case of \<open>headerUpdateTests\<close>: after the call
  the header the caller holds has other views and no aliases.
\<close>

theorem Update_mutates_counterexample:
  "fst (Update [0 \<mapsto> header_Update] 0 ''ref1'' None) = None
   \<and> snd (Update [0 \<mapsto> header_Update] 0 ''ref1'' None) 0 = Some header_Update_Result_Without_Fields
   \<and> map View header_Update_Result_Without_Fields \<noteq> map View header_Update
   \<and> map Aliases header_Update_Result_Without_Fields \<noteq> map Aliases header_Update
   \<and> snd (Update [0 \<mapsto> header_Update] 0 ''ref1'' None) 0 \<noteq> Some header_Update"
  by (simp add: update_defs)


section \<open>Flattening a view\<close>

lemma length_filter_all: "(length (filter P xs) = length xs) = (\<forall>x\<in>set xs. P x)"
proof (induction xs)
  case Nil
  then show ?case by simp
next
  case (Cons x xs)
  have le: "length (filter P xs) \<le> length xs" by simp
  show ?case
  proof (cases "P x")
    case True
    with Cons show ?thesis by simp
  next
    case False
    from le have "length (filter P xs) \<noteq> Suc (length xs)" by arith
    with False show ?thesis by simp
  qed
qed

text \<open>
  C2, as \<open>bareValues\<close> flattens a view. The names are the columns of the header fields
  that are from a table, one each, in header order, and the rows are the values of the
  cells of each record, in order. The names are as many as the header fields exactly when
  every field is from a table; then, if every record has as many cells as the header has
  fields, every flattened row has as many values as there are names.
\<close>

theorem bareValues_names:
  "fst (bareValues view) = map Column (filter IsFromTable (Header view))
   \<and> length (fst (bareValues view)) = length (filter IsFromTable (Header view))
   \<and> snd (bareValues view) = map (map Value) (RecordSet view)
   \<and> (length (fst (bareValues view)) = length (Header view)) =
       (\<forall>f\<in>set (Header view). IsFromTable f)
   \<and> ((\<forall>f\<in>set (Header view). IsFromTable f)
        \<and> (\<forall>r\<in>set (RecordSet view). length r = length (Header view)) \<longrightarrow>
       fst (bareValues view) = map Column (Header view)
       \<and> (\<forall>row\<in>set (snd (bareValues view)). length row = length (fst (bareValues view))))"
proof (intro conjI impI)
  show "(length (fst (bareValues view)) = length (Header view)) =
       (\<forall>f\<in>set (Header view). IsFromTable f)"
    by (simp add: bareValues_def TableColumnNames_def length_filter_all)
next
  assume a: "(\<forall>f\<in>set (Header view). IsFromTable f)
        \<and> (\<forall>r\<in>set (RecordSet view). length r = length (Header view))"
  then have "filter IsFromTable (Header view) = Header view" by simp
  then show "fst (bareValues view) = map Column (Header view)"
    by (simp add: bareValues_def TableColumnNames_def)
  then show "\<forall>row\<in>set (snd (bareValues view)). length row = length (fst (bareValues view))"
    using a by (auto simp: bareValues_def)
qed (simp_all add: bareValues_def TableColumnNames_def)

theorem bareValues_names_witness:
  "list_all IsFromTable (Header view_scenario)
   \<and> list_all (\<lambda>r. length r = length (Header view_scenario)) (RecordSet view_scenario)
   \<and> bareValues view_scenario = ([''c1'', ''c2''], [[Integer 1, String ''x'']])
   \<and> bareValues view_expression = ([''c1'', ''c3''], [[String ''a'', Integer 2, String ''c'']])"
  using bareValues_names [of view_scenario] bareValues_names [of view_expression]
  by (simp add: view_scenario_def view_expression_def header_TableColumnNames_def hfield_def
      bareValues_def TableColumnNames_def)

text \<open>
  C2 as it is stated fails on the header of \<open>TestHeader_TableColumnNames\<close>, whose second
  field is not from a table: three fields and rows of three values, and two names.
\<close>

theorem bareValues_names_counterexample:
  "\<not> IsFromTable (Header view_expression ! 1)
   \<and> length (Header view_expression) = 3
   \<and> list_all (\<lambda>row. length row = 3) (snd (bareValues view_expression))
   \<and> length (fst (bareValues view_expression)) = 2
   \<and> length (fst (bareValues view_expression)) \<noteq> length (Header view_expression)
   \<and> \<not> list_all (\<lambda>row. length row = length (fst (bareValues view_expression)))
         (snd (bareValues view_expression))"
  by (simp add: view_expression_def header_TableColumnNames_def hfield_def
      bareValues_def TableColumnNames_def)


section \<open>Text tables\<close>

lemmas example_defs = example_Ext_def example_World_def example_FileInfo_def
  view_scenario_def view_no_records_def view_two_rows_def hfield_def

lemmas encoder_defs = bareValues_def TableColumnNames_def encodeText_def encode_table_def
  text_encoder_def first_aligns_def table_field_of_def write_string_def LogWarn_def
  encodeCSV_def write_table_def flushed_def csv_field_of_def EncodeView_def

lemma write_string_not_empty_result:
  "fst (write_string E w s) \<noteq> Some EmptyResultSetError"
  by (auto simp: write_string_def split: prod.splits option.splits)

lemma encode_table_not_empty_result:
  "fst (encode_table E w e) \<noteq> Some EmptyResultSetError"
  by (simp add: encode_table_def write_string_not_empty_result split: sum.splits)

lemma bareValues_records_empty: "(snd (bareValues view) = []) = (RecordSet view = [])"
  by (simp add: bareValues_def)

text \<open>The header of \<open>encodeText\<close> is the list of names that \<open>bareValues\<close> returns;
  for a view whose fields are all from tables it is empty exactly when the view has no
  field.\<close>

lemma bareValues_names_empty:
  "\<forall>f\<in>set (Header view). IsFromTable f \<Longrightarrow> (fst (bareValues view) = []) = (Header view = [])"
  by (simp add: bareValues_def TableColumnNames_def)

text \<open>
  C7. Encoding a view as a plain text table (format TEXT, directly or through
  \<open>EncodeView\<close>) returns the empty-result error exactly when the header, the list of
  column names \<open>header\<close> of \<open>encodeText\<close>, is empty or the record set is empty; then
  nothing is written to the destination and \<open>LogWarn\<close> is called once, with "Empty
  Fields" for the header (checked first) and "Empty RecordSet" for the records. In the
  formats GFM and ORG the result is never the empty-result error.
\<close>

theorem encodeText_empty_result:
  "(fst (encodeText E w view TEXT lineBreak withoutHeader encoding) = Some EmptyResultSetError)
     = (fst (bareValues view) = [] \<or> RecordSet view = [])
   \<and> (fst (bareValues view) = [] \<longrightarrow>
        encodeText E w view TEXT lineBreak withoutHeader encoding =
          (Some EmptyResultSetError,
           w\<lparr>warnings := warnings w @ [(''Empty Fields'', Quiet (GetFlags E))]\<rparr>))
   \<and> (fst (bareValues view) \<noteq> [] \<and> RecordSet view = [] \<longrightarrow>
        encodeText E w view TEXT lineBreak withoutHeader encoding =
          (Some EmptyResultSetError,
           w\<lparr>warnings := warnings w @ [(''Empty RecordSet'', Quiet (GetFlags E))]\<rparr>))
   \<and> (fst (encodeText E w view TEXT lineBreak withoutHeader encoding) = Some EmptyResultSetError
        \<longrightarrow> fp (snd (encodeText E w view TEXT lineBreak withoutHeader encoding)) = fp w
           \<and> length (warnings (snd (encodeText E w view TEXT lineBreak withoutHeader encoding)))
               = Suc (length (warnings w)))
   \<and> fst (encodeText E w view GFM lineBreak withoutHeader encoding) \<noteq> Some EmptyResultSetError
   \<and> fst (encodeText E w view ORG lineBreak withoutHeader encoding) \<noteq> Some EmptyResultSetError
   \<and> (infos fileInfo = Some fi \<and> Format fi = TEXT \<longrightarrow>
        fst (EncodeView E w infos view fileInfo) =
          encodeText E w view TEXT (LineBreak fi) (NoHeader fi) (Encoding fi))"
proof -
  obtain header records where b: "bareValues view = (header, records)"
    by (cases "bareValues view")
  have r: "(records = []) = (RecordSet view = [])"
    using bareValues_records_empty [of view] b by simp
  have plain: "encodeText E w view TEXT lineBreak withoutHeader encoding =
      (if header = []
       then (Some EmptyResultSetError, LogWarn ''Empty Fields'' (Quiet (GetFlags E)) w)
       else if records = []
       then (Some EmptyResultSetError, LogWarn ''Empty RecordSet'' (Quiet (GetFlags E)) w)
       else encode_table E w
              (text_encoder E header records TEXT PlainTable True lineBreak withoutHeader
                 encoding))"
    by (simp add: encodeText_def b)
  have gfm: "encodeText E w view GFM lineBreak withoutHeader encoding =
      encode_table E w
        (text_encoder E header records GFM GFMTable False lineBreak withoutHeader encoding)"
    by (simp add: encodeText_def b)
  have org: "encodeText E w view ORG lineBreak withoutHeader encoding =
      encode_table E w
        (text_encoder E header records ORG OrgTable False lineBreak withoutHeader encoding)"
    by (simp add: encodeText_def b)
  show ?thesis
  proof (intro conjI impI)
    show "(fst (encodeText E w view TEXT lineBreak withoutHeader encoding) =
            Some EmptyResultSetError) = (fst (bareValues view) = [] \<or> RecordSet view = [])"
      using r by (simp add: plain b encode_table_not_empty_result)
    show "fst (encodeText E w view GFM lineBreak withoutHeader encoding) \<noteq>
            Some EmptyResultSetError"
      by (simp only: gfm encode_table_not_empty_result not_False_eq_True)
    show "fst (encodeText E w view ORG lineBreak withoutHeader encoding) \<noteq>
            Some EmptyResultSetError"
      by (simp only: org encode_table_not_empty_result not_False_eq_True)
  next
    assume "fst (bareValues view) = []"
    then show "encodeText E w view TEXT lineBreak withoutHeader encoding =
          (Some EmptyResultSetError,
           w\<lparr>warnings := warnings w @ [(''Empty Fields'', Quiet (GetFlags E))]\<rparr>)"
      by (simp add: plain b LogWarn_def)
  next
    assume "fst (bareValues view) \<noteq> [] \<and> RecordSet view = []"
    then show "encodeText E w view TEXT lineBreak withoutHeader encoding =
          (Some EmptyResultSetError,
           w\<lparr>warnings := warnings w @ [(''Empty RecordSet'', Quiet (GetFlags E))]\<rparr>)"
      using r by (simp add: plain b LogWarn_def)
  next
    assume e: "fst (encodeText E w view TEXT lineBreak withoutHeader encoding) =
                 Some EmptyResultSetError"
    then have "header = [] \<or> records = []"
      by (simp add: plain encode_table_not_empty_result split: if_splits)
    then show "fp (snd (encodeText E w view TEXT lineBreak withoutHeader encoding)) = fp w"
      by (auto simp: plain LogWarn_def)
    from \<open>header = [] \<or> records = []\<close>
    show "length (warnings (snd (encodeText E w view TEXT lineBreak withoutHeader encoding)))
               = Suc (length (warnings w))"
      by (auto simp: plain LogWarn_def)
  next
    assume "infos fileInfo = Some fi \<and> Format fi = TEXT"
    then show "fst (EncodeView E w infos view fileInfo) =
          encodeText E w view TEXT (LineBreak fi) (NoHeader fi) (Encoding fi)"
      by (simp add: EncodeView_def)
  qed
qed


text \<open>On the view of the scenarios without its row: the empty-result error, nothing
  written and one warning as a plain text table, no error as a GFM table; with its row,
  no error as a plain text table.\<close>

theorem encodeText_empty_result_witness:
  "fst (bareValues view_no_records) \<noteq> [] \<and> RecordSet view_no_records = []
   \<and> encodeText example_Ext example_World view_no_records TEXT LF False UTF8 =
       (Some EmptyResultSetError,
        \<lparr>fp = [], warnings = [(''Empty RecordSet'', False)], palette_enabled = False\<rparr>)
   \<and> encodeText example_Ext example_World view_no_records GFM LF False UTF8 =
       (None, \<lparr>fp = [''''], warnings = [], palette_enabled = False\<rparr>)
   \<and> fst (bareValues view_scenario) \<noteq> [] \<and> RecordSet view_scenario \<noteq> []
   \<and> fst (encodeText example_Ext example_World view_scenario TEXT LF False UTF8) = None
   \<and> [0 \<mapsto> example_FileInfo\<lparr>Format := TEXT\<rparr>] 0 = Some (example_FileInfo\<lparr>Format := TEXT\<rparr>)
   \<and> fst (EncodeView example_Ext example_World [0 \<mapsto> example_FileInfo\<lparr>Format := TEXT\<rparr>]
            view_no_records 0) =
       (Some EmptyResultSetError,
        \<lparr>fp = [], warnings = [(''Empty RecordSet'', False)], palette_enabled = False\<rparr>)"
  using encodeText_empty_result [where E = example_Ext and w = example_World
      and view = view_no_records and lineBreak = LF and withoutHeader = False
      and encoding = UTF8 and infos = "[0 \<mapsto> example_FileInfo\<lparr>Format := TEXT\<rparr>]"
      and fileInfo = 0 and fi = "example_FileInfo\<lparr>Format := TEXT\<rparr>"]
    encodeText_empty_result [where E = example_Ext and w = example_World
      and view = view_scenario and lineBreak = LF and withoutHeader = False
      and encoding = UTF8 and infos = "[0 \<mapsto> example_FileInfo\<lparr>Format := TEXT\<rparr>]"
      and fileInfo = 0 and fi = "example_FileInfo\<lparr>Format := TEXT\<rparr>"]
  by (simp add: example_defs encoder_defs)

text \<open>
  C8. For a view with a first record, the GFM encoding is the table encoder's encoding of
  an encoder whose field alignments, the source of the marker row, are the alignments that
  \<open>ConvertFieldContents\<close> returns for the cells of the first record, one for each cell
  in order; a view with the same first record and any other records (or header) gives the
  same alignments.
\<close>

theorem encodeText_GFM_alignments:
  assumes "RecordSet view = first # others"
  shows "encodeText E w view GFM lineBreak withoutHeader encoding =
           encode_table E w
             (text_encoder E (fst (bareValues view)) (snd (bareValues view)) GFM GFMTable
                False lineBreak withoutHeader encoding)
       \<and> e_FieldAlignments
           (text_encoder E (fst (bareValues view)) (snd (bareValues view)) GFM GFMTable
              False lineBreak withoutHeader encoding) =
          Some (map (\<lambda>c. snd (snd (ConvertFieldContents (Formats E) (Value c) False))) first)
       \<and> (\<forall>i<length first.
            the (e_FieldAlignments
                   (text_encoder E (fst (bareValues view)) (snd (bareValues view)) GFM
                      GFMTable False lineBreak withoutHeader encoding)) ! i =
            snd (snd (ConvertFieldContents (Formats E) (Value (first ! i)) False)))
       \<and> (RecordSet view' = first # others' \<longrightarrow>
            e_FieldAlignments
              (text_encoder E (fst (bareValues view')) (snd (bareValues view')) GFM GFMTable
                 False lineBreak withoutHeader encoding) =
            e_FieldAlignments
              (text_encoder E (fst (bareValues view)) (snd (bareValues view)) GFM GFMTable
                 False lineBreak withoutHeader encoding))"
proof -
  have enc: "encodeText E w view GFM lineBreak withoutHeader encoding =
           encode_table E w
             (text_encoder E (fst (bareValues view)) (snd (bareValues view)) GFM GFMTable
                False lineBreak withoutHeader encoding)"
    by (simp add: encodeText_def split: prod.splits)
  have al: "\<And>v rest. RecordSet v = first # rest \<Longrightarrow>
      e_FieldAlignments
        (text_encoder E (fst (bareValues v)) (snd (bareValues v)) GFM GFMTable
           False lineBreak withoutHeader encoding) =
      Some (map (\<lambda>c. snd (snd (ConvertFieldContents (Formats E) (Value c) False))) first)"
    by (simp add: text_encoder_def first_aligns_def bareValues_def)
  show ?thesis
    using enc al [OF assms] al by simp
qed

text \<open>The second row of booleans and nulls, which would be centred, leaves the
  alignments of the first row, right and none.\<close>

theorem encodeText_GFM_alignments_witness:
  "RecordSet view_two_rows = [Cell (Integer 1), Cell (String ''x'')] # [[Cell (Boolean True), Cell Null]]
   \<and> RecordSet view_scenario = [Cell (Integer 1), Cell (String ''x'')] # []
   \<and> e_FieldAlignments
        (text_encoder example_Ext (fst (bareValues view_two_rows)) (snd (bareValues view_two_rows))
           GFM GFMTable False LF False UTF8) = Some [RightAligned, NotAligned]
   \<and> e_FieldAlignments
        (text_encoder example_Ext (fst (bareValues view_scenario)) (snd (bareValues view_scenario))
           GFM GFMTable False LF False UTF8) = Some [RightAligned, NotAligned]
   \<and> encodeText example_Ext example_World view_two_rows GFM LF False UTF8 =
        (None, \<lparr>fp = [''r-''], warnings = [], palette_enabled = False\<rparr>)"
  using encodeText_GFM_alignments [where view = view_two_rows and view' = view_scenario
      and first = "[Cell (Integer 1), Cell (String ''x'')]"
      and others = "[[Cell (Boolean True), Cell Null]]" and others' = "[]"
      and E = example_Ext and w = example_World and lineBreak = LF and withoutHeader = False
      and encoding = UTF8]
  by (simp add: example_defs encoder_defs)

section \<open>The delimiter of TSV\<close>

text \<open>
  C9. When the description that \<open>fileInfo\<close> points to has the format TSV,
  \<open>EncodeView\<close> is \<open>encodeCSV\<close> with the tab (rune 9) as the delimiter, and in the
  store the description's delimiter is the tab afterwards. A later \<open>EncodeView\<close> of the
  same description writes with the tab too, also after the caller has set its format to
  CSV.
\<close>

theorem EncodeView_TSV_delimiter:
  assumes "infos fileInfo = Some fi" and "Format fi = TSV"
  shows "EncodeView E w infos view fileInfo =
           (encodeCSV E w view 9 (LineBreak fi) (NoHeader fi) (Encoding fi) (EncloseAll fi),
            infos(fileInfo \<mapsto> fi\<lparr>Delimiter := 9\<rparr>))
       \<and> snd (EncodeView E w infos view fileInfo) fileInfo = Some (fi\<lparr>Delimiter := 9\<rparr>)
       \<and> EncodeView E' w' (snd (EncodeView E w infos view fileInfo)) view' fileInfo =
           (encodeCSV E' w' view' 9 (LineBreak fi) (NoHeader fi) (Encoding fi) (EncloseAll fi),
            snd (EncodeView E w infos view fileInfo))
       \<and> EncodeView E' w'
            ((snd (EncodeView E w infos view fileInfo))
               (fileInfo \<mapsto> (fi\<lparr>Delimiter := 9\<rparr>)\<lparr>Format := CSV\<rparr>)) view' fileInfo =
           (encodeCSV E' w' view' 9 (LineBreak fi) (NoHeader fi) (Encoding fi) (EncloseAll fi),
            (snd (EncodeView E w infos view fileInfo))
               (fileInfo \<mapsto> (fi\<lparr>Delimiter := 9\<rparr>)\<lparr>Format := CSV\<rparr>))"
proof -
  have first: "EncodeView E w infos view fileInfo =
           (encodeCSV E w view 9 (LineBreak fi) (NoHeader fi) (Encoding fi) (EncloseAll fi),
            infos(fileInfo \<mapsto> fi\<lparr>Delimiter := 9\<rparr>))"
    using assms by (simp add: EncodeView_def)
  have again: "EncodeView E' w' (infos(fileInfo \<mapsto> fi\<lparr>Delimiter := 9\<rparr>)) view' fileInfo =
           (encodeCSV E' w' view' 9 (LineBreak fi) (NoHeader fi) (Encoding fi) (EncloseAll fi),
            infos(fileInfo \<mapsto> fi\<lparr>Delimiter := 9\<rparr>))"
    using assms by (simp add: EncodeView_def)
  have csv: "EncodeView E' w'
            ((infos(fileInfo \<mapsto> fi\<lparr>Delimiter := 9\<rparr>))
               (fileInfo \<mapsto> (fi\<lparr>Delimiter := 9\<rparr>)\<lparr>Format := CSV\<rparr>)) view' fileInfo =
           (encodeCSV E' w' view' 9 (LineBreak fi) (NoHeader fi) (Encoding fi) (EncloseAll fi),
            (infos(fileInfo \<mapsto> fi\<lparr>Delimiter := 9\<rparr>))
               (fileInfo \<mapsto> (fi\<lparr>Delimiter := 9\<rparr>)\<lparr>Format := CSV\<rparr>))"
    by (simp add: EncodeView_def)
  show ?thesis
    by (simp only: first again csv snd_conv fun_upd_same simp_thms)
qed

text \<open>The description starts with a comma (rune 44) as its delimiter; the two lines
  written, c1, c2 and 1, x, are separated by tabs, in the TSV encoding and in a CSV
  encoding after it.\<close>

theorem EncodeView_TSV_delimiter_witness:
  "[0 \<mapsto> example_FileInfo] 0 = Some example_FileInfo
   \<and> Format example_FileInfo = TSV \<and> Delimiter example_FileInfo = 44
   \<and> fst (EncodeView example_Ext example_World [0 \<mapsto> example_FileInfo] view_scenario 0) =
       (None, \<lparr>fp = [[CHR ''c'', CHR ''1'', char_of (9 :: nat), CHR ''c'', CHR ''2''],
                     [CHR ''1'', char_of (9 :: nat), CHR ''x'']],
               warnings = [], palette_enabled = False\<rparr>)
   \<and> Delimiter (the (snd (EncodeView example_Ext example_World [0 \<mapsto> example_FileInfo]
                             view_scenario 0) 0)) = 9
   \<and> fst (EncodeView example_Ext example_World
            ((snd (EncodeView example_Ext example_World [0 \<mapsto> example_FileInfo] view_scenario 0))
               (0 \<mapsto> (example_FileInfo\<lparr>Delimiter := 9\<rparr>)\<lparr>Format := CSV\<rparr>))
            view_scenario 0) =
       (None, \<lparr>fp = [[CHR ''c'', CHR ''1'', char_of (9 :: nat), CHR ''c'', CHR ''2''],
                     [CHR ''1'', char_of (9 :: nat), CHR ''x'']],
               warnings = [], palette_enabled = False\<rparr>)"
proof -
  have tab: "unat (9 :: 32 word) = 9" by simp
  show ?thesis
    using EncodeView_TSV_delimiter [where infos = "[0 \<mapsto> example_FileInfo]" and fileInfo = 0
        and fi = example_FileInfo and E = example_Ext and w = example_World
        and view = view_scenario and E' = example_Ext and w' = example_World
        and view' = view_scenario]
    by (simp add: example_defs encoder_defs FormatInt_digits tab)
qed


section \<open>Properties of the converter\<close>

text \<open>
  C6. A Ternary UNKNOWN and a Null convert to the empty string with no style class and
  no alignment outside a text table, and to the non-empty literals UNKNOWN and NULL, with
  the Ternary and the Null style class and centred, inside one.
\<close>

theorem ConvertFieldContents_unknown_null:
  "ConvertFieldContents F (Ternary UNKNOWN) False = ('''', NoEffect, NotAligned)
   \<and> ConvertFieldContents F Null False = ('''', NoEffect, NotAligned)
   \<and> ConvertFieldContents F (Ternary UNKNOWN) True = (''UNKNOWN'', TernaryEffect, Centering)
   \<and> ConvertFieldContents F Null True = (''NULL'', NullEffect, Centering)
   \<and> ''UNKNOWN'' \<noteq> '''' \<and> ''NULL'' \<noteq> ''''"
  by simp

text \<open>
  C10. The converter has a result for every value and both flags, and no error among its
  results; a value that is none of the seven variants converts to the empty string with
  no style class and no alignment, the result of a Null outside a text table.
\<close>

theorem ConvertFieldContents_total:
  "(\<exists>s e a. ConvertFieldContents F v forTextTable = (s, e, a))
   \<and> ConvertFieldContents F (OtherPrimary k) forTextTable = ('''', NoEffect, NotAligned)
   \<and> ConvertFieldContents F (OtherPrimary k) forTextTable = ConvertFieldContents F Null False"
  by (cases "ConvertFieldContents F v forTextTable") simp

end
